theory Spec2Isabelle
  imports Main "HOL-Library.Sublist"
begin

section \<open>JavaScript values\<close>

text \<open>
  A value of type \<open>string | undefined\<close> is a \<open>string option\<close>, \<open>None\<close> being
  \<open>undefined\<close>. In a condition position JavaScript takes \<open>undefined\<close> and the empty
  string as false and every other string as true.
\<close>

definition truthy :: "string option \<Rightarrow> bool" where
  "truthy v = (case v of None \<Rightarrow> False | Some s \<Rightarrow> s \<noteq> [])"

text \<open>\<open>ToString\<close> of a \<open>string | undefined\<close>, as a built-in applies it to its argument.\<close>

definition ToString :: "string option \<Rightarrow> string" where
  "ToString v = (case v of None \<Rightarrow> ''undefined'' | Some s \<Rightarrow> s)"

text \<open>
  The numbers of this program are time values and their differences: integers or \<open>NaN\<close>.
  A time value is an integer number of milliseconds of magnitude at most \<open>8.64e15\<close>
  (\<open>TimeClip\<close>), which a double holds exactly. The difference \<open>d\<close> of two time values has
  magnitude below \<open>2^54\<close>: up to \<open>2^53\<close> the double is \<open>d\<close> itself, above it doubles are
  two apart and an odd \<open>d\<close> is rounded to the neighbour with the even significand, the
  multiple of four.
\<close>

datatype js_number = NaN | Num int

definition TimeClip :: "int option \<Rightarrow> js_number" where
  "TimeClip tv = (case tv of None \<Rightarrow> NaN
     | Some ms \<Rightarrow> if \<bar>ms\<bar> > 8640000000000000 then NaN else Num ms)"

definition round_double :: "int \<Rightarrow> int" where
  "round_double d =
     (if \<bar>d\<bar> \<le> 2 ^ 53 then d
      else if even d then d
      else if (d + 1) mod 4 = 0 then d + 1 else d - 1)"

definition js_minus :: "js_number \<Rightarrow> js_number \<Rightarrow> js_number" where
  "js_minus x y = (case (x, y) of (Num a, Num b) \<Rightarrow> Num (round_double (a - b)) | _ \<Rightarrow> NaN)"

text \<open>
  \<open>new Date(s).getTime()\<close>: the parser of date strings is the host's, taken as the
  parameter \<open>parse\<close> (\<open>None\<close> for a string it does not read).
\<close>

definition getTime :: "(string \<Rightarrow> int option) \<Rightarrow> string \<Rightarrow> js_number" where
  "getTime parse s = TimeClip (parse s)"

section \<open>The conditions overview\<close>

record Condition =
  id_c :: string
  display :: "string option"
  clinicalStatus :: "string option"
  onsetDateTime :: "string option"
  abatementDateTime :: "string option"

record ConditionTableRow = Condition +
  condition :: "string option"
  onsetDateTimeRender :: string
  status :: "string option"

text \<open>
  \<open>filteredConditions\<close>: the filter state is a string (\<open>None\<close> when unset), the fetched
  conditions are a list, or \<open>None\<close> while there is none (\<open>conditions?.filter\<close>).
\<close>

definition filteredConditions ::
  "string option \<Rightarrow> Condition list option \<Rightarrow> Condition list option" where
  "filteredConditions fltr conditions =
     (if \<not> truthy fltr \<or> fltr = Some ''All'' then conditions
      else if truthy fltr then
        map_option (filter (\<lambda>condition. clinicalStatus condition = fltr)) conditions
      else conditions)"

text \<open>
  The sort functions of the three headers. \<open>localeCompare\<close> is the host's collation, a
  parameter; \<open>a?.localeCompare(b)\<close> is \<open>undefined\<close> (\<open>None\<close>) when \<open>a\<close> is, and else
  compares \<open>a\<close> with \<open>ToString b\<close>.
\<close>

definition display_sortFunc ::
  "(string \<Rightarrow> string \<Rightarrow> int) \<Rightarrow> ConditionTableRow \<Rightarrow> ConditionTableRow \<Rightarrow> js_number option" where
  "display_sortFunc localeCompare valueA valueB =
     (case display valueA of None \<Rightarrow> None
      | Some a \<Rightarrow> Some (Num (localeCompare a (ToString (display valueB)))))"

definition onsetDateTimeRender_sortFunc ::
  "(string \<Rightarrow> int option) \<Rightarrow> ConditionTableRow \<Rightarrow> ConditionTableRow \<Rightarrow> js_number" where
  "onsetDateTimeRender_sortFunc parse valueA valueB =
     (if truthy (onsetDateTime valueA) \<and> truthy (onsetDateTime valueB)
      then js_minus (getTime parse (ToString (onsetDateTime valueA)))
                    (getTime parse (ToString (onsetDateTime valueB)))
      else Num 0)"

definition status_sortFunc ::
  "(string \<Rightarrow> string \<Rightarrow> int) \<Rightarrow> ConditionTableRow \<Rightarrow> ConditionTableRow \<Rightarrow> js_number option" where
  "status_sortFunc localeCompare valueA valueB =
     (case status valueA of None \<Rightarrow> None
      | Some a \<Rightarrow> Some (Num (localeCompare a (ToString (status valueB)))))"

text \<open>
  \<open>tableRows\<close>: the spread copies the condition, the literal adds the three fields of
  the row. \<open>fmt\<close> stands for \<open>formatDate (parseDate s) {mode: 'wide', time: 'for today'}\<close>,
  the framework's formatter in the current locale.
\<close>

definition tableRow :: "(string \<Rightarrow> string) \<Rightarrow> Condition \<Rightarrow> ConditionTableRow" where
  "tableRow fmt c =
     Condition.extend (c\<lparr>id_c := id_c c, abatementDateTime := abatementDateTime c\<rparr>)
       (ConditionTableRow.fields
          (display c)
          (if truthy (onsetDateTime c) then fmt (ToString (onsetDateTime c)) else ''--'')
          (clinicalStatus c))"

definition tableRows ::
  "(string \<Rightarrow> string) \<Rightarrow> Condition list option \<Rightarrow> ConditionTableRow list option" where
  "tableRows fmt filtered = map_option (map (tableRow fmt)) filtered"

section \<open>The order cancellation form\<close>

subsection \<open>Translation\<close>

text \<open>
  \<open>t key defaultText options\<close> is the translation lookup of the host, a parameter of
  everything below. \<open>t_default\<close> is a sample lookup with no catalogue: the default
  text with each \<open>{{name}}\<close> replaced by the option of that name. It instantiates the
  parameter where a concrete lookup is wanted.
\<close>

type_synonym translate = "string \<Rightarrow> string \<Rightarrow> (string \<times> string option) list \<Rightarrow> string"

fun replaceAll :: "string \<Rightarrow> string \<Rightarrow> string \<Rightarrow> string" where
  "replaceAll pat rep [] = []"
| "replaceAll pat rep (c # cs) =
     (if pat \<noteq> [] \<and> take (length pat) (c # cs) = pat
      then rep @ replaceAll pat rep (drop (length pat) (c # cs))
      else c # replaceAll pat rep cs)"

definition t_default :: translate where
  "t_default key defaultText options =
     foldl (\<lambda>text (name, v). replaceAll (''{{'' @ name @ ''}}'') (ToString v) text)
       defaultText options"

subsection \<open>The schema\<close>

text \<open>
  A \<open>Date\<close> object is its time value: \<open>InvalidDate\<close> when that is \<open>NaN\<close>. The date field
  of the form holds \<open>undefined\<close>, \<open>null\<close> (a date picker emptied again) or a \<open>Date\<close>; the
  reason field holds \<open>undefined\<close> or a string. Nothing is registered as a default value,
  so a field never touched is \<open>undefined\<close>.
\<close>

datatype js_date = NullDate | InvalidDate | DateAt int

record field_values =
  cancellationDate_field :: "js_date option"
  reasonForCancellation_field :: "string option"

record CancelOrderFormData =
  cancellationDate :: int
  reasonForCancellation :: string

text \<open>
  \<open>z.date({required_error}).refine(date >= startOfToday, {message})\<close>: \<open>undefined\<close> gives
  the required error, \<open>null\<close> and a \<open>Date\<close> with no time value the library's own
  messages, and the refinement runs on a valid \<open>Date\<close> only. \<open>startOfToday\<close> is the time value of
  \<open>dayjs().startOf('day').toDate()\<close> when the schema runs; \<open>>=\<close> compares time values.
\<close>

definition cancellationDate_schema :: "translate \<Rightarrow> int \<Rightarrow> js_date option \<Rightarrow> string + int" where
  "cancellationDate_schema t startOfToday v =
     (case v of
        None \<Rightarrow> Inl (t ''cancellationDateRequired'' ''Cancellation date is required'' [])
      | Some NullDate \<Rightarrow> Inl ''Expected date, received null''
      | Some InvalidDate \<Rightarrow> Inl ''Invalid date''
      | Some (DateAt ms) \<Rightarrow>
          if ms \<ge> startOfToday then Inr ms
          else Inl (t ''dateCannotBeBeforeToday'' ''Date cannot be before today'' []))"

text \<open>\<open>z.string({required_error})\<close>: \<open>undefined\<close> gives the required error, a string passes.\<close>

definition reasonForCancellation_schema :: "translate \<Rightarrow> string option \<Rightarrow> string + string" where
  "reasonForCancellation_schema t v =
     (case v of
        None \<Rightarrow> Inl (t ''reasonForCancellationRequired'' ''Reason for cancellation is required'' [])
      | Some s \<Rightarrow> Inr s)"

text \<open>
  The resolver of the form, \<open>zodResolver(cancelOrderSchema)\<close>: the parsed data, or the
  errors keyed by the name of the failing field.
\<close>

definition cancelOrderSchema ::
  "translate \<Rightarrow> int \<Rightarrow> field_values \<Rightarrow> (string \<times> string) list + CancelOrderFormData" where
  "cancelOrderSchema t startOfToday v =
     (case (cancellationDate_schema t startOfToday (cancellationDate_field v),
            reasonForCancellation_schema t (reasonForCancellation_field v)) of
        (Inr d, Inr r) \<Rightarrow> Inr \<lparr>cancellationDate = d, reasonForCancellation = r\<rparr>
      | (Inl m, Inr r) \<Rightarrow> Inl [(''cancellationDate'', m)]
      | (Inr d, Inl m') \<Rightarrow> Inl [(''reasonForCancellation'', m')]
      | (Inl m, Inl m') \<Rightarrow> Inl [(''cancellationDate'', m), (''reasonForCancellation'', m')])"

text \<open>The message the form shows under a field: \<open>errors[name]?.message\<close>.\<close>

definition fieldError :: "(string \<times> string) list + CancelOrderFormData \<Rightarrow> string \<Rightarrow> string option" where
  "fieldError result name = (case result of Inl errs \<Rightarrow> map_of errs name | Inr _ \<Rightarrow> None)"

subsection \<open>State and effects\<close>

record Order =
  uuid :: string
  display_o :: string
  orderNumber :: string

record payload =
  fulfillerStatus :: string
  fulfillerComment :: string

record snackbar =
  isLowContrast :: "bool option"
  title :: string
  kind :: string
  subtitle :: "string option"

text \<open>The reason a cancellation call is rejected with: \<open>undefined\<close>, or an object that may carry a message.\<close>

datatype js_error = ErrorObject (message: "string option")

text \<open>What the component does to its collaborators, in the order it does it.\<close>

datatype effect =
    CancelOrder "Order option" payload
  | CloseWorkspace
  | Mutate
  | ShowSnackbar snackbar

text \<open>
  The state of one mounted form: the flag of the inline notification, the form
  library's \<open>isSubmitting\<close> and \<open>errors\<close>, whether the library is waiting for a promise
  its submit callback returned, the number of cancellation calls not yet settled, and
  the effects so far.
\<close>

record form_state =
  showErrorNotification :: bool
  isSubmitting :: bool
  errors :: "(string \<times> string) list"
  awaitingCallback :: bool
  pending :: nat
  effects :: "effect list"

definition initial :: form_state where
  "initial = \<lparr>showErrorNotification = False, isSubmitting = False, errors = [],
     awaitingCallback = False, pending = 0, effects = []\<rparr>"

subsection \<open>The callbacks\<close>

definition onError :: "(string \<times> string) list \<Rightarrow> form_state \<Rightarrow> form_state" where
  "onError err s =
     (if map_of err ''oneFieldRequired'' \<noteq> None then s\<lparr>showErrorNotification := True\<rparr> else s)"

text \<open>What a callback hands back to the form library.\<close>

datatype callback_return = ReturnsUndefined | ReturnsPromise

text \<open>
  \<open>cancelOrderRequest\<close> starts the call, registers the two handlers on its promise and
  falls off the end of its body: it returns \<open>undefined\<close>.
\<close>

definition cancelOrderRequest ::
  "Order option \<Rightarrow> CancelOrderFormData \<Rightarrow> form_state \<Rightarrow> callback_return \<times> form_state" where
  "cancelOrderRequest order formData s =
     (ReturnsUndefined,
      s\<lparr>showErrorNotification := False,
        pending := Suc (pending s),
        effects := effects s @
          [CancelOrder order
             \<lparr>fulfillerStatus = ''DECLINED'',
              fulfillerComment = reasonForCancellation formData\<rparr>]\<rparr>)"

definition onFulfilled :: "translate \<Rightarrow> Order option \<Rightarrow> form_state \<Rightarrow> form_state" where
  "onFulfilled t order s =
     s\<lparr>effects := effects s @
        [CloseWorkspace, Mutate,
         ShowSnackbar
           \<lparr>isLowContrast = None,
            title = t ''orderCancelled'' ''Order cancelled'' [],
            kind = ''success'',
            subtitle = Some (t ''successfullyCancelledOrder''
              ''Order {{orderNumber}} has been cancelled successfully''
              [(''orderNumber'', map_option orderNumber order)])\<rparr>]\<rparr>"

definition onRejected :: "translate \<Rightarrow> js_error option \<Rightarrow> form_state \<Rightarrow> form_state" where
  "onRejected t err s =
     s\<lparr>effects := effects s @
        [ShowSnackbar
           \<lparr>isLowContrast = Some True,
            title = t ''errorCancellingOrder'' ''Error cancelling order'' [],
            kind = ''error'',
            subtitle = (case err of None \<Rightarrow> None | Some e \<Rightarrow> message e)\<rparr>]\<rparr>"

subsection \<open>The form library's submit handler and the events of the form\<close>

text \<open>
  \<open>handleSubmit onValid onInvalid\<close> of the form library: it sets \<open>isSubmitting\<close>, runs the
  resolver, calls \<open>onValid\<close> with the parsed data when there is no error and \<open>onInvalid\<close>
  with the errors otherwise, awaits what the callback returned and clears
  \<open>isSubmitting\<close>. Awaiting \<open>undefined\<close> ends at once; awaiting a promise ends when it
  settles.
\<close>

definition handleSubmit ::
  "(field_values \<Rightarrow> (string \<times> string) list + CancelOrderFormData) \<Rightarrow>
   (CancelOrderFormData \<Rightarrow> form_state \<Rightarrow> callback_return \<times> form_state) \<Rightarrow>
   ((string \<times> string) list \<Rightarrow> form_state \<Rightarrow> form_state) \<Rightarrow>
   field_values \<Rightarrow> form_state \<Rightarrow> form_state" where
  "handleSubmit resolver onValid onInvalid v s =
     (case resolver v of
        Inr formData \<Rightarrow>
          (case onValid formData (s\<lparr>isSubmitting := True, errors := []\<rparr>) of
             (ReturnsUndefined, s') \<Rightarrow> s'\<lparr>isSubmitting := False\<rparr>
           | (ReturnsPromise, s') \<Rightarrow> s'\<lparr>awaitingCallback := True\<rparr>)
      | Inl errs \<Rightarrow>
          (onInvalid errs (s\<lparr>isSubmitting := True, errors := errs\<rparr>))\<lparr>isSubmitting := False\<rparr>)"

text \<open>
  The events: a click on the submit button with the current field values, and a
  pending cancellation call settling. The button is disabled while \<open>isSubmitting\<close>, so
  a click then does nothing.
\<close>

datatype outcome = Resolved | Rejected "js_error option"

datatype event = Click field_values | Settle outcome

fun step :: "translate \<Rightarrow> int \<Rightarrow> Order option \<Rightarrow> form_state \<Rightarrow> event \<Rightarrow> form_state" where
  "step t startOfToday order s (Click v) =
     (if isSubmitting s then s
      else handleSubmit (cancelOrderSchema t startOfToday) (cancelOrderRequest order) onError v s)"
| "step t startOfToday order s (Settle out) =
     (if pending s = 0 then s
      else
        let s' = s\<lparr>pending := pending s - 1,
                   isSubmitting := (if awaitingCallback s then False else isSubmitting s),
                   awaitingCallback := False\<rparr>
        in case out of
             Resolved \<Rightarrow> onFulfilled t order s'
           | Rejected err \<Rightarrow> onRejected t err s')"

definition run :: "translate \<Rightarrow> int \<Rightarrow> Order option \<Rightarrow> form_state \<Rightarrow> event list \<Rightarrow> form_state" where
  "run t startOfToday order s evs = foldl (step t startOfToday order) s evs"

section \<open>Sample data\<close>

text \<open>Concrete inputs on which the properties below are instantiated.\<close>

definition asthma :: Condition where
  "asthma = \<lparr>id_c = ''c-1'', display = Some ''Asthma'', clinicalStatus = Some ''Active'',
     onsetDateTime = Some ''2020-01-01'', abatementDateTime = None\<rparr>"

definition flu :: Condition where
  "flu = \<lparr>id_c = ''c-2'', display = None, clinicalStatus = Some ''Inactive'',
     onsetDateTime = None, abatementDateTime = Some ''2021-03-01''\<rparr>"

definition malaria :: Condition where
  "malaria = \<lparr>id_c = ''c-3'', display = Some ''Malaria'', clinicalStatus = Some ''Active'',
     onsetDateTime = Some ''2019-06-01'', abatementDateTime = None\<rparr>"

definition sample_parse :: "string \<Rightarrow> int option" where
  "sample_parse s =
     (if s = ''2020-01-01'' then Some 1577836800000
      else if s = ''2019-06-01'' then Some 1559347200000
      else None)"

definition sample_fmt :: "string \<Rightarrow> string" where
  "sample_fmt s = ''on '' @ s"

definition order_1 :: Order where
  "order_1 = \<lparr>uuid = ''o-1'', display_o = ''Amoxicillin 500mg'', orderNumber = ''ORD-1''\<rparr>"

text \<open>Field values, with the start of today at the instant 1000.\<close>

definition duplicate_today :: field_values where
  "duplicate_today = \<lparr>cancellationDate_field = Some (DateAt 1000),
     reasonForCancellation_field = Some ''duplicate order''\<rparr>"

definition duplicate_tomorrow :: field_values where
  "duplicate_tomorrow = \<lparr>cancellationDate_field = Some (DateAt 2000),
     reasonForCancellation_field = Some ''duplicate order''\<rparr>"

definition duplicate_yesterday :: field_values where
  "duplicate_yesterday = \<lparr>cancellationDate_field = Some (DateAt 999),
     reasonForCancellation_field = Some ''duplicate''\<rparr>"

definition untouched :: field_values where
  "untouched = \<lparr>cancellationDate_field = None, reasonForCancellation_field = None\<rparr>"

definition cleared_reason :: field_values where
  "cleared_reason = \<lparr>cancellationDate_field = Some (DateAt 1000),
     reasonForCancellation_field = Some ''''\<rparr>"

section \<open>Properties of the conditions overview\<close>

lemma truthy_Some [simp]: "truthy (Some s) = (s \<noteq> [])"
  by (simp add: truthy_def)

lemma truthy_None [simp]: "\<not> truthy None"
  by (simp add: truthy_def)

lemma ToString_Some [simp]: "ToString (Some s) = s"
  by (simp add: ToString_def)

text \<open>
  C2. With the filter at \<open>Active\<close> or \<open>Inactive\<close> the filtered list holds exactly the
  conditions whose clinical status is the filter value, in their original order; with
  the filter at \<open>All\<close> it is the input list itself.
\<close>

theorem filteredConditions_selects:
  "(fltr = ''Active'' \<or> fltr = ''Inactive'' \<longrightarrow>
      (\<exists>ys. filteredConditions (Some fltr) (Some cs) = Some ys
          \<and> ys = filter (\<lambda>c. clinicalStatus c = Some fltr) cs
          \<and> subseq ys cs
          \<and> (\<forall>c. count_list ys c = (if clinicalStatus c = Some fltr then count_list cs c else 0))))
   \<and> filteredConditions (Some ''All'') (Some cs) = Some cs"
proof -
  have sel: "count_list (filter P xs) c = (if P c then count_list xs c else 0)"
    for P :: "Condition \<Rightarrow> bool" and xs c
    by (induction xs) auto
  show ?thesis
    by (auto simp: filteredConditions_def sel)
qed

theorem filteredConditions_selects_witness:
  "(''Active'' = ''Active'' \<or> ''Active'' = ''Inactive'')
   \<and> filteredConditions (Some ''Active'') (Some [asthma, flu, malaria]) = Some [asthma, malaria]"
  using filteredConditions_selects [of "''Active''" "[asthma, flu, malaria]"]
  by (simp add: asthma_def flu_def malaria_def)

lemma tableRow_truncate: "Condition.truncate (tableRow fmt c) = c"
  by (simp add: tableRow_def Condition.defs ConditionTableRow.defs)

lemma tableRow_fields:
  "status (tableRow fmt c) = clinicalStatus c"
  "condition (tableRow fmt c) = display c"
  "onsetDateTimeRender (tableRow fmt c) =
     (if truthy (onsetDateTime c) then fmt (ToString (onsetDateTime c)) else ''--'')"
  by (simp_all add: tableRow_def Condition.defs ConditionTableRow.defs)

text \<open>
  C8. The rows are as many as the retained conditions and in their order; cutting a
  row back to the fields of a condition gives the condition it came from; the status of
  a row is the clinical status verbatim, and its onset string is the formatted onset
  date when the condition has one and \<open>--\<close> when it has none.
\<close>

theorem tableRows_projection:
  "\<exists>rows. tableRows fmt (Some cs) = Some rows
      \<and> length rows = length cs
      \<and> map Condition.truncate rows = cs
      \<and> (\<forall>i < length cs.
            status (rows ! i) = clinicalStatus (cs ! i)
          \<and> (\<forall>s. onsetDateTime (cs ! i) = Some s \<and> s \<noteq> [] \<longrightarrow>
                 onsetDateTimeRender (rows ! i) = fmt s)
          \<and> (onsetDateTime (cs ! i) = None \<longrightarrow> onsetDateTimeRender (rows ! i) = ''--''))"
proof -
  have "map Condition.truncate (map (tableRow fmt) cs) = cs"
    by (simp add: tableRow_truncate o_def)
  then show ?thesis
    by (simp add: tableRows_def tableRow_fields)
qed

theorem tableRows_projection_witness:
  "tableRows sample_fmt (Some [asthma, flu]) =
     Some [Condition.extend asthma
             (ConditionTableRow.fields (Some ''Asthma'') ''on 2020-01-01'' (Some ''Active'')),
           Condition.extend flu
             (ConditionTableRow.fields None ''--'' (Some ''Inactive''))]"
  using tableRows_projection [of sample_fmt "[asthma, flu]"]
  by (simp add: tableRows_def tableRow_def asthma_def flu_def sample_fmt_def)

lemma round_double_near: "\<bar>round_double d - d\<bar> \<le> 1"
  by (simp add: round_double_def)

lemma round_double_sgn: "sgn (round_double d) = sgn d"
  by (auto simp: round_double_def sgn_if)

lemma round_double_exact: "\<bar>d\<bar> \<le> 2 ^ 53 \<Longrightarrow> round_double d = d"
  by (simp add: round_double_def)

text \<open>
  C5. When both rows have an onset timestamp the onset-date comparator returns the
  difference of the two instants as JavaScript subtracts them: a number whenever both
  strings parse, of the sign of the exact difference, and the exact difference itself
  up to \<open>2^53\<close> milliseconds. When either row has no onset timestamp it returns zero.
\<close>

theorem onsetDateTimeRender_sortFunc_difference:
  "(truthy (onsetDateTime a) \<and> truthy (onsetDateTime b) \<longrightarrow>
      onsetDateTimeRender_sortFunc parse a b =
        js_minus (getTime parse (ToString (onsetDateTime a)))
                 (getTime parse (ToString (onsetDateTime b))))
   \<and> (onsetDateTime a = Some sa \<and> sa \<noteq> [] \<and> onsetDateTime b = Some sb \<and> sb \<noteq> []
        \<and> getTime parse sa = Num ta \<and> getTime parse sb = Num tb \<longrightarrow>
      (\<exists>d. onsetDateTimeRender_sortFunc parse a b = Num d
          \<and> (\<bar>ta - tb\<bar> \<le> 2 ^ 53 \<longrightarrow> d = ta - tb)
          \<and> \<bar>d - (ta - tb)\<bar> \<le> 1 \<and> sgn d = sgn (ta - tb)))
   \<and> (\<not> truthy (onsetDateTime a) \<or> \<not> truthy (onsetDateTime b) \<longrightarrow>
      onsetDateTimeRender_sortFunc parse a b = Num 0)"
proof (intro conjI impI)
  assume "truthy (onsetDateTime a) \<and> truthy (onsetDateTime b)"
  then show "onsetDateTimeRender_sortFunc parse a b =
        js_minus (getTime parse (ToString (onsetDateTime a)))
                 (getTime parse (ToString (onsetDateTime b)))"
    by (simp add: onsetDateTimeRender_sortFunc_def)
next
  assume h: "onsetDateTime a = Some sa \<and> sa \<noteq> [] \<and> onsetDateTime b = Some sb \<and> sb \<noteq> []
        \<and> getTime parse sa = Num ta \<and> getTime parse sb = Num tb"
  then have "onsetDateTimeRender_sortFunc parse a b = Num (round_double (ta - tb))"
    by (simp add: onsetDateTimeRender_sortFunc_def js_minus_def)
  then show "\<exists>d. onsetDateTimeRender_sortFunc parse a b = Num d
          \<and> (\<bar>ta - tb\<bar> \<le> 2 ^ 53 \<longrightarrow> d = ta - tb)
          \<and> \<bar>d - (ta - tb)\<bar> \<le> 1 \<and> sgn d = sgn (ta - tb)"
    using round_double_near [of "ta - tb"] round_double_sgn [of "ta - tb"]
      round_double_exact [of "ta - tb"]
    by simp
next
  assume "\<not> truthy (onsetDateTime a) \<or> \<not> truthy (onsetDateTime b)"
  then show "onsetDateTimeRender_sortFunc parse a b = Num 0"
    by (auto simp: onsetDateTimeRender_sortFunc_def)
qed

theorem onsetDateTimeRender_sortFunc_difference_witness:
  "onsetDateTimeRender_sortFunc sample_parse
       (tableRow sample_fmt asthma) (tableRow sample_fmt malaria) = Num 18489600000
   \<and> onsetDateTimeRender_sortFunc sample_parse
       (tableRow sample_fmt asthma) (tableRow sample_fmt flu) = Num 0"
  using onsetDateTimeRender_sortFunc_difference
    [of "tableRow sample_fmt asthma" "tableRow sample_fmt malaria" sample_parse
        "''2020-01-01''" "''2019-06-01''" 1577836800000 1559347200000]
  by (simp add: onsetDateTimeRender_sortFunc_def tableRow_def asthma_def flu_def malaria_def
      sample_parse_def getTime_def TimeClip_def js_minus_def round_double_def
      Condition.defs ConditionTableRow.defs)

text \<open>
  C6. The condition-name comparator on a pair with a missing display label: with the
  label of the first row missing it returns \<open>undefined\<close>, which is no number, and with the
  label of the second row missing it compares the first label with the text
  \<open>undefined\<close>, so the pair is not treated as equal.
\<close>

theorem display_sortFunc_missing_label:
  "display_sortFunc localeCompare (tableRow fmt flu) (tableRow fmt asthma) = None
   \<and> display_sortFunc localeCompare (tableRow fmt asthma) (tableRow fmt flu)
       = Some (Num (localeCompare ''Asthma'' ''undefined''))"
  by (simp add: display_sortFunc_def tableRow_def asthma_def flu_def ToString_def
      Condition.defs ConditionTableRow.defs)

section \<open>Properties of the order cancellation form\<close>

lemma cancellationDate_schema_Inr:
  "cancellationDate_schema t sod v = Inr d \<longleftrightarrow> v = Some (DateAt d) \<and> sod \<le> d"
  by (auto simp: cancellationDate_schema_def split: option.splits js_date.splits)

lemma reasonForCancellation_schema_Inr:
  "reasonForCancellation_schema t v = Inr r \<longleftrightarrow> v = Some r"
  by (auto simp: reasonForCancellation_schema_def split: option.splits)

lemma cancelOrderSchema_Inr:
  "cancelOrderSchema t sod v = Inr formData \<longleftrightarrow>
     cancellationDate_field v = Some (DateAt (cancellationDate formData))
     \<and> sod \<le> cancellationDate formData
     \<and> reasonForCancellation_field v = Some (reasonForCancellation formData)"
  by (cases formData)
     (auto simp: cancelOrderSchema_def cancellationDate_schema_def reasonForCancellation_schema_def
        split: option.splits js_date.splits if_splits)

lemma fieldError_cancellationDate:
  "fieldError (cancelOrderSchema t sod v) ''cancellationDate'' =
     (case cancellationDate_schema t sod (cancellationDate_field v) of
        Inl m \<Rightarrow> Some m | Inr d \<Rightarrow> None)"
  by (simp add: fieldError_def cancelOrderSchema_def split: sum.splits)

lemma fieldError_reasonForCancellation:
  "fieldError (cancelOrderSchema t sod v) ''reasonForCancellation'' =
     (case reasonForCancellation_schema t (reasonForCancellation_field v) of
        Inl m \<Rightarrow> Some m | Inr r \<Rightarrow> None)"
  by (simp add: fieldError_def cancelOrderSchema_def split: sum.splits)

text \<open>
  C3. The date field passes validation exactly when it holds a date at or after the
  start of today: a missing date is rejected with the required message, a date before
  the start of today with the before-today message, and the start of today itself
  passes.
\<close>

theorem cancellationDate_validation:
  "(fieldError (cancelOrderSchema t startOfToday v) ''cancellationDate'' = None
      \<longleftrightarrow> (\<exists>ms. cancellationDate_field v = Some (DateAt ms) \<and> startOfToday \<le> ms))
   \<and> (cancellationDate_field v = None \<longrightarrow>
        fieldError (cancelOrderSchema t startOfToday v) ''cancellationDate''
          = Some (t ''cancellationDateRequired'' ''Cancellation date is required'' []))
   \<and> (\<forall>ms. cancellationDate_field v = Some (DateAt ms) \<and> ms < startOfToday \<longrightarrow>
        fieldError (cancelOrderSchema t startOfToday v) ''cancellationDate''
          = Some (t ''dateCannotBeBeforeToday'' ''Date cannot be before today'' []))
   \<and> (cancellationDate_field v = Some (DateAt startOfToday) \<longrightarrow>
        fieldError (cancelOrderSchema t startOfToday v) ''cancellationDate'' = None)"
  by (auto simp: fieldError_cancellationDate cancellationDate_schema_def
      split: option.splits js_date.splits)

theorem cancellationDate_validation_witness:
  "fieldError (cancelOrderSchema t_default 1000 untouched) ''cancellationDate''
      = Some ''Cancellation date is required''
   \<and> fieldError (cancelOrderSchema t_default 1000 duplicate_yesterday) ''cancellationDate''
      = Some ''Date cannot be before today''
   \<and> fieldError (cancelOrderSchema t_default 1000 duplicate_today) ''cancellationDate'' = None"
  using cancellationDate_validation [of t_default 1000 untouched]
    cancellationDate_validation [of t_default 1000 duplicate_yesterday]
    cancellationDate_validation [of t_default 1000 duplicate_today]
  by (simp add: untouched_def duplicate_yesterday_def duplicate_today_def t_default_def)

lemma reasonForCancellation_validation:
  "fieldError (cancelOrderSchema t startOfToday v) ''reasonForCancellation'' =
     (case reasonForCancellation_field v of
        None \<Rightarrow> Some (t ''reasonForCancellationRequired''
                  ''Reason for cancellation is required'' [])
      | Some r \<Rightarrow> None)"
  by (simp add: fieldError_reasonForCancellation reasonForCancellation_schema_def
      split: option.splits)

text \<open>
  C4. The reason field with the empty string in it (a reason typed and deleted again):
  the schema accepts it, no error stands under the field, and the submission sends the
  cancellation with an empty comment.
\<close>

theorem reasonForCancellation_accepts_empty:
  "cancelOrderSchema t 1000 cleared_reason
     = Inr \<lparr>cancellationDate = 1000, reasonForCancellation = ''''\<rparr>
   \<and> fieldError (cancelOrderSchema t 1000 cleared_reason) ''reasonForCancellation'' = None
   \<and> effects (step t 1000 order initial (Click cleared_reason))
     = [CancelOrder order \<lparr>fulfillerStatus = ''DECLINED'', fulfillerComment = ''''\<rparr>]"
  by (simp add: cancelOrderSchema_def cancellationDate_schema_def reasonForCancellation_schema_def
      cleared_reason_def fieldError_def initial_def handleSubmit_def cancelOrderRequest_def)


lemma step_Click_valid:
  assumes "cancelOrderSchema t sod v = Inr formData" and "\<not> isSubmitting s"
  shows "step t sod order s (Click v) =
     s\<lparr>showErrorNotification := False, isSubmitting := False, errors := [],
       pending := Suc (pending s),
       effects := effects s @
         [CancelOrder order \<lparr>fulfillerStatus = ''DECLINED'',
            fulfillerComment = reasonForCancellation formData\<rparr>]\<rparr>"
  using assms by (simp add: handleSubmit_def cancelOrderRequest_def)

lemma cancelOrderSchema_keys:
  "cancelOrderSchema t sod v = Inl errs \<Longrightarrow> map_of errs ''oneFieldRequired'' = None"
  by (auto simp: cancelOrderSchema_def split: sum.splits)

lemma step_Click_invalid:
  assumes "cancelOrderSchema t sod v = Inl errs" and "\<not> isSubmitting s"
  shows "step t sod order s (Click v) = s\<lparr>isSubmitting := False, errors := errs\<rparr>"
  using assms cancelOrderSchema_keys [OF assms(1)] by (simp add: handleSubmit_def onError_def)

text \<open>
  C1. A click on the enabled submit button with valid field values issues one
  cancellation call, with the status \<open>DECLINED\<close> and the entered reason as the comment,
  and nothing else. When the call resolves, the workspace is closed, the orders are
  fetched again and a success snackbar is shown whose text is the translation
  interpolated with the order number, once each. When it rejects, the only further
  effect is an error snackbar carrying the message of the rejection.
\<close>

theorem cancelOrderRequest_submission:
  assumes "cancellationDate_field v = Some (DateAt ms)" and "startOfToday \<le> ms"
    and "reasonForCancellation_field v = Some reason" and "\<not> isSubmitting s"
  shows "effects (run t startOfToday order s [Click v]) =
           effects s @
           [CancelOrder order \<lparr>fulfillerStatus = ''DECLINED'', fulfillerComment = reason\<rparr>]
       \<and> effects (run t startOfToday order s [Click v, Settle Resolved]) =
           effects s @
           [CancelOrder order \<lparr>fulfillerStatus = ''DECLINED'', fulfillerComment = reason\<rparr>,
            CloseWorkspace, Mutate,
            ShowSnackbar
              \<lparr>isLowContrast = None,
               title = t ''orderCancelled'' ''Order cancelled'' [],
               kind = ''success'',
               subtitle = Some (t ''successfullyCancelledOrder''
                 ''Order {{orderNumber}} has been cancelled successfully''
                 [(''orderNumber'', map_option orderNumber order)])\<rparr>]
       \<and> effects (run t startOfToday order s [Click v, Settle (Rejected err)]) =
           effects s @
           [CancelOrder order \<lparr>fulfillerStatus = ''DECLINED'', fulfillerComment = reason\<rparr>,
            ShowSnackbar
              \<lparr>isLowContrast = Some True,
               title = t ''errorCancellingOrder'' ''Error cancelling order'' [],
               kind = ''error'',
               subtitle = (case err of None \<Rightarrow> None | Some e \<Rightarrow> message e)\<rparr>]"
proof -
  have valid: "cancelOrderSchema t startOfToday v =
      Inr \<lparr>cancellationDate = ms, reasonForCancellation = reason\<rparr>"
    using assms(1-3) by (simp add: cancelOrderSchema_Inr)
  show ?thesis
    by (simp add: run_def step_Click_valid [OF valid assms(4)] onFulfilled_def onRejected_def
        del: step.simps(1))
qed

theorem cancelOrderRequest_submission_witness:
  "effects (run t_default 1000 (Some order_1) initial [Click duplicate_today, Settle Resolved]) =
     [CancelOrder (Some order_1)
        \<lparr>fulfillerStatus = ''DECLINED'', fulfillerComment = ''duplicate order''\<rparr>,
      CloseWorkspace, Mutate,
      ShowSnackbar \<lparr>isLowContrast = None, title = ''Order cancelled'', kind = ''success'',
        subtitle = Some ''Order ORD-1 has been cancelled successfully''\<rparr>]
   \<and> effects (run t_default 1000 (Some order_1) initial
        [Click duplicate_today, Settle (Rejected (Some (ErrorObject (Some ''Network error''))))]) =
     [CancelOrder (Some order_1)
        \<lparr>fulfillerStatus = ''DECLINED'', fulfillerComment = ''duplicate order''\<rparr>,
      ShowSnackbar \<lparr>isLowContrast = Some True, title = ''Error cancelling order'',
        kind = ''error'', subtitle = Some ''Network error''\<rparr>]"
proof -
  have a: "cancellationDate_field duplicate_today = Some (DateAt 1000)"
    and b: "(1000::int) \<le> 1000"
    and c: "reasonForCancellation_field duplicate_today = Some ''duplicate order''"
    and d: "\<not> isSubmitting initial"
    by (simp_all add: duplicate_today_def initial_def)
  have e: "effects initial = []"
    by (simp add: initial_def)
  have f: "t_default ''successfullyCancelledOrder''
      ''Order {{orderNumber}} has been cancelled successfully''
      [(''orderNumber'', Some (orderNumber order_1))]
      = ''Order ORD-1 has been cancelled successfully''"
    by (simp add: t_default_def order_1_def)
  have g: "t_default k dflt [] = dflt" for k dflt
    by (simp add: t_default_def)
  show ?thesis
    using cancelOrderRequest_submission [OF a b c d, of t_default "Some order_1"
        "Some (ErrorObject (Some ''Network error''))"]
    by (simp add: e f g)
qed

lemma step_keeps_notification_hidden:
  "\<not> showErrorNotification s \<Longrightarrow> \<not> showErrorNotification (step t sod order s ev)"
proof (cases ev)
  case (Click v)
  assume hid: "\<not> showErrorNotification s"
  show ?thesis
  proof (cases "isSubmitting s")
    case True
    with Click hid show ?thesis by simp
  next
    case False
    show ?thesis
    proof (cases "cancelOrderSchema t sod v")
      case (Inl errs)
      show ?thesis
        using hid by (simp add: Click step_Click_invalid [OF Inl False] del: step.simps(1))
    next
      case (Inr formData)
      show ?thesis
        by (simp add: Click step_Click_valid [OF Inr False] del: step.simps(1))
    qed
  qed
next
  case (Settle out)
  assume "\<not> showErrorNotification s"
  then show ?thesis
    by (cases out) (simp_all add: Settle Let_def onFulfilled_def onRejected_def)
qed

lemma run_keeps_notification_hidden:
  "\<not> showErrorNotification s \<Longrightarrow> \<not> showErrorNotification (run t sod order s evs)"
  unfolding run_def
  by (induction evs arbitrary: s) (simp_all add: step_keeps_notification_hidden)

lemma invalid_submission_makes_no_call:
  assumes "cancelOrderSchema t sod v = Inl errs" and "\<not> isSubmitting s"
  shows "effects (step t sod order s (Click v)) = effects s"
    and "pending (step t sod order s (Click v)) = pending s"
    and "errors (step t sod order s (Click v)) = errs"
  by (simp_all add: step_Click_invalid [OF assms] del: step.simps(1))

text \<open>
  C7. A submission of the untouched form fails validation: no call is made and both
  field errors are set, but the flag of the inline notice stays false. \<open>onError\<close> sets
  it only for an error keyed \<open>oneFieldRequired\<close>, which the schema never produces, so
  no sequence of events ever shows the notice.
\<close>

theorem onError_never_shows_notice:
  "run t 1000 order initial [Click untouched] =
     initial\<lparr>errors :=
       [(''cancellationDate'', t ''cancellationDateRequired'' ''Cancellation date is required'' []),
        (''reasonForCancellation'',
         t ''reasonForCancellationRequired'' ''Reason for cancellation is required'' [])]\<rparr>
   \<and> showErrorNotification (run t 1000 order initial [Click untouched]) = False
   \<and> (\<forall>startOfToday evs. showErrorNotification (run t startOfToday order initial evs) = False)"
proof -
  have "cancelOrderSchema t 1000 untouched =
     Inl [(''cancellationDate'', t ''cancellationDateRequired'' ''Cancellation date is required'' []),
        (''reasonForCancellation'',
         t ''reasonForCancellationRequired'' ''Reason for cancellation is required'' [])]"
    by (simp add: cancelOrderSchema_def cancellationDate_schema_def
        reasonForCancellation_schema_def untouched_def)
  then have "run t 1000 order initial [Click untouched] =
     initial\<lparr>errors :=
       [(''cancellationDate'', t ''cancellationDateRequired'' ''Cancellation date is required'' []),
        (''reasonForCancellation'',
         t ''reasonForCancellationRequired'' ''Reason for cancellation is required'' [])]\<rparr>"
    by (simp add: run_def handleSubmit_def onError_def initial_def)
  moreover have "\<not> showErrorNotification initial"
    by (simp add: initial_def)
  ultimately show ?thesis
    using run_keeps_notification_hidden by simp
qed

text \<open>
  C9. After a valid submission the call is pending and \<open>isSubmitting\<close> is false again,
  since the submit callback returns no promise for the form library to await: the
  button is enabled, and a second click starts a second call while the first is
  pending.
\<close>

theorem submit_button_enabled_while_pending:
  "isSubmitting (run t 1000 order initial [Click duplicate_today]) = False
   \<and> pending (run t 1000 order initial [Click duplicate_today]) = 1
   \<and> pending (run t 1000 order initial [Click duplicate_today, Click duplicate_today]) = 2
   \<and> effects (run t 1000 order initial [Click duplicate_today, Click duplicate_today]) =
       [CancelOrder order \<lparr>fulfillerStatus = ''DECLINED'', fulfillerComment = ''duplicate order''\<rparr>,
        CancelOrder order \<lparr>fulfillerStatus = ''DECLINED'', fulfillerComment = ''duplicate order''\<rparr>]"
  by (simp add: run_def handleSubmit_def cancelOrderRequest_def cancelOrderSchema_def
      cancellationDate_schema_def reasonForCancellation_schema_def duplicate_today_def initial_def)

text \<open>
  C10. The cancellation date is no part of the request: changing the date of the parsed
  data changes nothing of what \<open>cancelOrderRequest\<close> does, and two valid submissions with
  the same reason lead to the same state, whatever their dates and whatever follows.
\<close>

theorem cancelOrderRequest_ignores_cancellationDate:
  "cancelOrderRequest order (formData\<lparr>cancellationDate := d\<rparr>) s
     = cancelOrderRequest order formData s
   \<and> (reasonForCancellation_field v1 = reasonForCancellation_field v2
        \<and> (\<exists>d1. cancelOrderSchema t sod v1 = Inr d1)
        \<and> (\<exists>d2. cancelOrderSchema t sod v2 = Inr d2)
      \<longrightarrow> run t sod order s (Click v1 # evs) = run t sod order s (Click v2 # evs))"
proof (intro conjI impI)
  show "cancelOrderRequest order (formData\<lparr>cancellationDate := d\<rparr>) s
     = cancelOrderRequest order formData s"
    by (simp add: cancelOrderRequest_def)
next
  assume h: "reasonForCancellation_field v1 = reasonForCancellation_field v2
        \<and> (\<exists>d1. cancelOrderSchema t sod v1 = Inr d1)
        \<and> (\<exists>d2. cancelOrderSchema t sod v2 = Inr d2)"
  then obtain d1 d2 where v: "cancelOrderSchema t sod v1 = Inr d1" "cancelOrderSchema t sod v2 = Inr d2"
    by blast
  with h have "reasonForCancellation d1 = reasonForCancellation d2"
    by (simp add: cancelOrderSchema_Inr)
  then have "step t sod order s (Click v1) = step t sod order s (Click v2)"
    using v by (simp add: handleSubmit_def cancelOrderRequest_def)
  then show "run t sod order s (Click v1 # evs) = run t sod order s (Click v2 # evs)"
    by (simp add: run_def)
qed

theorem cancelOrderRequest_ignores_cancellationDate_witness:
  "effects (run t_default 1000 (Some order_1) initial [Click duplicate_today])
     = effects (run t_default 1000 (Some order_1) initial [Click duplicate_tomorrow])
   \<and> cancellationDate_field duplicate_today \<noteq> cancellationDate_field duplicate_tomorrow
   \<and> effects (run t_default 1000 (Some order_1) initial [Click duplicate_today])
     = [CancelOrder (Some order_1)
        \<lparr>fulfillerStatus = ''DECLINED'', fulfillerComment = ''duplicate order''\<rparr>]"
proof -
  have a: "cancelOrderSchema t_default 1000 duplicate_today =
      Inr \<lparr>cancellationDate = 1000, reasonForCancellation = ''duplicate order''\<rparr>"
    and b: "cancelOrderSchema t_default 1000 duplicate_tomorrow =
      Inr \<lparr>cancellationDate = 2000, reasonForCancellation = ''duplicate order''\<rparr>"
    by (simp_all add: cancelOrderSchema_Inr duplicate_today_def duplicate_tomorrow_def)
  have c: "reasonForCancellation_field duplicate_today = reasonForCancellation_field duplicate_tomorrow"
    and d: "cancellationDate_field duplicate_today \<noteq> cancellationDate_field duplicate_tomorrow"
    by (simp_all add: duplicate_today_def duplicate_tomorrow_def)
  have e: "effects (run t_default 1000 (Some order_1) initial [Click duplicate_today])
     = [CancelOrder (Some order_1)
        \<lparr>fulfillerStatus = ''DECLINED'', fulfillerComment = ''duplicate order''\<rparr>]"
    by (simp add: run_def handleSubmit_def cancelOrderRequest_def a initial_def)
  show ?thesis
    using cancelOrderRequest_ignores_cancellationDate
      [where ?v1.0 = duplicate_today and ?v2.0 = duplicate_tomorrow and t = t_default
         and sod = 1000 and order = "Some order_1" and s = initial and evs = "[]"] a b c d e
    by simp
qed

end
